theory Spec2Isabelle
  imports Complex_Main "HOL-Library.Word"
begin

section \<open>Data model\<close>

text \<open>
  Pointers (\<open>LinkPtr\<close>, \<open>WorldPtr\<close>, the transport handles, the mutex pointer) are
  addresses; two of them are equal exactly when they refer to the same object.
  A C++ \<open>double\<close> that is only passed around or returned as the literal \<open>0\<close> is a
  \<open>real\<close>; \<open>int\<close> and \<open>unsigned int\<close> are 32-bit words (an \<open>int\<close> is read with
  \<open>sint\<close>, an \<open>unsigned int\<close> with \<open>unat\<close>).
\<close>

type_synonym ptr = nat
type_synonym LinkPtr = ptr
type_synonym double = real
type_synonym c_int = "32 word"
type_synonym c_uint = "32 word"

text \<open>
  The data members of \<open>class PhysicsEngine\<close> (PhysicsEngine.hh, lines 152 to 160).
  \<open>contactPairs\<close> is a \<open>std::map<LinkPtr, LinkPtr>\<close>: at most one value per key.
  A backend's engine class adds members of its own (gravity, step time, solver
  parameters): the member functions of the base class are defined on every extension
  \<open>'m PhysicsEngine_scheme\<close> of the record, the extension's fields being \<open>more\<close>.
\<close>

record PhysicsEngine =
  world :: ptr
  sdf :: ptr
  node :: ptr
  responsePub :: ptr
  physicsSub :: ptr
  requestSub :: ptr
  rayMutex :: ptr
  contactPairs :: "LinkPtr \<rightharpoonup> LinkPtr"

section \<open>Contact-pair bookkeeping\<close>

text \<open>
  \<open>std::map::insert(std::make_pair(k, v))\<close> stores the pair only when the map has no
  element with key \<open>k\<close>; otherwise the map is left as it is.
\<close>

definition map_insert ::
  "('k \<rightharpoonup> 'v) \<Rightarrow> 'k \<Rightarrow> 'v \<Rightarrow> ('k \<rightharpoonup> 'v)" where
  "map_insert m k v = (case m k of None \<Rightarrow> m(k \<mapsto> v) | Some old \<Rightarrow> m)"

text \<open>
  \<open>AddLinkPair\<close> (lines 161 to 168): two guarded inserts, one after the other; the
  second guard reads the map as the first insert left it.
  \<open>contactPairs.find(k) == contactPairs.end()\<close> is \<open>contactPairs e k = None\<close>.
\<close>

definition AddLinkPair ::
  "LinkPtr \<Rightarrow> LinkPtr \<Rightarrow> 'm PhysicsEngine_scheme \<Rightarrow> 'm PhysicsEngine_scheme" where
  "AddLinkPair link1 link2 e =
     (let e1 = (if contactPairs e link1 = None
                then e\<lparr>contactPairs := map_insert (contactPairs e) link1 link2\<rparr>
                else e);
          e2 = (if contactPairs e1 link2 = None
                then e1\<lparr>contactPairs := map_insert (contactPairs e1) link2 link1\<rparr>
                else e1)
      in e2)"

text \<open>
  \<open>AreTouching\<close> (lines 169 to 178). \<open>find(k)->second != v\<close> is only evaluated when
  \<open>find(k)\<close> is not \<open>end()\<close> (short-circuit \<open>||\<close>), which is the \<open>Some\<close> branch.
\<close>

definition AreTouching ::
  "LinkPtr \<Rightarrow> LinkPtr \<Rightarrow> 'm PhysicsEngine_scheme \<Rightarrow> bool" where
  "AreTouching link1 link2 e =
     (if (case contactPairs e link1 of None \<Rightarrow> True | Some second \<Rightarrow> second \<noteq> link2) \<and>
         (case contactPairs e link2 of None \<Rightarrow> True | Some second \<Rightarrow> second \<noteq> link1)
      then False
      else True)"

text \<open>
  A sequence of \<open>AddLinkPair\<close> calls, made in list order on one engine. A registry
  state reachable from the empty registry is \<open>AddLinkPairs cs e\<close> for an engine \<open>e\<close>
  whose \<open>contactPairs\<close> is empty.
\<close>

fun AddLinkPairs ::
  "(LinkPtr \<times> LinkPtr) list \<Rightarrow> 'm PhysicsEngine_scheme \<Rightarrow> 'm PhysicsEngine_scheme" where
  "AddLinkPairs [] e = e"
| "AddLinkPairs ((link1, link2) # cs) e = AddLinkPairs cs (AddLinkPair link1 link2 e)"

text \<open>An engine whose registry is empty, as a freshly constructed \<open>std::map\<close> is.\<close>

definition engine0 :: PhysicsEngine where
  "engine0 = \<lparr>world = 0, sdf = 0, node = 0, responsePub = 0, physicsSub = 0,
              requestSub = 0, rayMutex = 0, contactPairs = Map.empty\<rparr>"

section \<open>Engine parameters and step-loop defaults\<close>

text \<open>
  The base-class setters (lines 111 to 125) have empty bodies: the argument is not
  even named, and the engine is returned as it was.
\<close>

definition SetWorldCFM ::
  "double \<Rightarrow> 'm PhysicsEngine_scheme \<Rightarrow> 'm PhysicsEngine_scheme" where
  "SetWorldCFM cfm e = e"

definition SetWorldERP ::
  "double \<Rightarrow> 'm PhysicsEngine_scheme \<Rightarrow> 'm PhysicsEngine_scheme" where
  "SetWorldERP erp e = e"

definition SetAutoDisableFlag ::
  "bool \<Rightarrow> 'm PhysicsEngine_scheme \<Rightarrow> 'm PhysicsEngine_scheme" where
  "SetAutoDisableFlag autoDisable e = e"

definition SetSORPGSIters ::
  "c_uint \<Rightarrow> 'm PhysicsEngine_scheme \<Rightarrow> 'm PhysicsEngine_scheme" where
  "SetSORPGSIters iters e = e"

definition SetSORPGSW ::
  "double \<Rightarrow> 'm PhysicsEngine_scheme \<Rightarrow> 'm PhysicsEngine_scheme" where
  "SetSORPGSW w e = e"

definition SetContactMaxCorrectingVel ::
  "double \<Rightarrow> 'm PhysicsEngine_scheme \<Rightarrow> 'm PhysicsEngine_scheme" where
  "SetContactMaxCorrectingVel vel e = e"

definition SetContactSurfaceLayer ::
  "double \<Rightarrow> 'm PhysicsEngine_scheme \<Rightarrow> 'm PhysicsEngine_scheme" where
  "SetContactSurfaceLayer layerDepth e = e"

text \<open>\<open>SetMaxContacts\<close> takes a \<open>double\<close> in the source, although its getter returns \<open>int\<close>.\<close>

definition SetMaxContacts ::
  "double \<Rightarrow> 'm PhysicsEngine_scheme \<Rightarrow> 'm PhysicsEngine_scheme" where
  "SetMaxContacts maxContacts e = e"

text \<open>
  The base-class getters (lines 127 to 141) are \<open>return 0;\<close> in each return type; the
  \<open>bool\<close> one converts \<open>0\<close> to \<open>false\<close>. None of them assigns to a member.
\<close>

definition GetWorldCFM :: "'m PhysicsEngine_scheme \<Rightarrow> double" where
  "GetWorldCFM e = 0"

definition GetWorldERP :: "'m PhysicsEngine_scheme \<Rightarrow> double" where
  "GetWorldERP e = 0"

definition GetAutoDisableFlag :: "'m PhysicsEngine_scheme \<Rightarrow> bool" where
  "GetAutoDisableFlag e = False"

definition GetSORPGSIters :: "'m PhysicsEngine_scheme \<Rightarrow> c_int" where
  "GetSORPGSIters e = 0"

definition GetSORPGSW :: "'m PhysicsEngine_scheme \<Rightarrow> double" where
  "GetSORPGSW e = 0"

definition GetContactMaxCorrectingVel :: "'m PhysicsEngine_scheme \<Rightarrow> double" where
  "GetContactMaxCorrectingVel e = 0"

definition GetContactSurfaceLayer :: "'m PhysicsEngine_scheme \<Rightarrow> double" where
  "GetContactSurfaceLayer e = 0"

definition GetMaxContacts :: "'m PhysicsEngine_scheme \<Rightarrow> c_int" where
  "GetMaxContacts e = 0"

text \<open>\<open>Reset\<close> (line 60) and \<open>UpdatePhysics\<close> (line 81) have empty bodies.\<close>

definition Reset :: "'m PhysicsEngine_scheme \<Rightarrow> 'm PhysicsEngine_scheme" where
  "Reset e = e"

definition UpdatePhysics ::
  "'m PhysicsEngine_scheme \<Rightarrow> 'm PhysicsEngine_scheme" where
  "UpdatePhysics e = e"

section \<open>The Bullet joint\<close>

text \<open>
  Modelled from the spec: \<open>math::Vector3\<close> (math/Vector3.hh) is not part of the sources
  at hand. A vector has three \<open>double\<close> components, and the value its default
  constructor builds is the one the spec calls "a plausible-looking default such as
  a zero vector".
\<close>

datatype Vector3 = Vector3 double double double

definition Vector3_default :: Vector3 where
  "Vector3_default = Vector3 0 0 0"

text \<open>
  The data members of \<open>class BulletJoint\<close> (BulletJoint.hh, lines 105 to 107). The
  members inherited from \<open>Joint\<close> (Joint.hh is not at hand) are one field of an
  arbitrary type. The member \<open>btDynamicsWorld *world\<close> is the field \<open>dynamicsWorld\<close>,
  \<open>world\<close> being a field of the engine already.
\<close>

record 'joint BulletJoint =
  Joint :: 'joint
  constraint :: ptr
  dynamicsWorld :: ptr

text \<open>
  \<open>gzerr << s\<close> writes \<open>s\<close> to the error console (common/Console.hh is not at hand):
  the console is the list of the messages written so far, in order.
\<close>

type_synonym console = "string list"

definition gzerr_write :: "string \<Rightarrow> console \<Rightarrow> console" where
  "gzerr_write s gzerr = gzerr @ [s]"

definition Not_implement_in_Bullet :: string where
  "Not_implement_in_Bullet = ''Not implement in Bullet'' @ [CHR 0x0A]"

text \<open>
  The stubs of lines 69 to 92. A non-\<open>const\<close> member returns the joint (unchanged: the
  body has no assignment); a \<open>const\<close> member cannot change it and returns only its
  value. Each one returns the console as well.
\<close>

definition SetAnchor ::
  "'joint BulletJoint \<Rightarrow> c_int \<Rightarrow> Vector3 \<Rightarrow> console \<Rightarrow> 'joint BulletJoint \<times> console" where
  "SetAnchor this index anchor gzerr = (this, gzerr_write Not_implement_in_Bullet gzerr)"

definition SetDamping ::
  "'joint BulletJoint \<Rightarrow> c_int \<Rightarrow> double \<Rightarrow> console \<Rightarrow> 'joint BulletJoint \<times> console" where
  "SetDamping this index damping gzerr = (this, gzerr_write Not_implement_in_Bullet gzerr)"

definition GetAnchor ::
  "'joint BulletJoint \<Rightarrow> c_int \<Rightarrow> console \<Rightarrow> Vector3 \<times> console" where
  "GetAnchor this index gzerr = (Vector3_default, gzerr_write Not_implement_in_Bullet gzerr)"

definition GetLinkForce ::
  "'joint BulletJoint \<Rightarrow> c_uint \<Rightarrow> console \<Rightarrow> Vector3 \<times> console" where
  "GetLinkForce this index gzerr = (Vector3_default, gzerr_write Not_implement_in_Bullet gzerr)"

definition GetLinkTorque ::
  "'joint BulletJoint \<Rightarrow> c_uint \<Rightarrow> console \<Rightarrow> Vector3 \<times> console" where
  "GetLinkTorque this index gzerr = (Vector3_default, gzerr_write Not_implement_in_Bullet gzerr)"

text \<open>The enumeration \<open>Attribute\<close> is declared in Joint.hh; it is a type parameter here.\<close>

definition SetAttribute ::
  "'joint BulletJoint \<Rightarrow> 'attribute \<Rightarrow> c_int \<Rightarrow> double \<Rightarrow> console
     \<Rightarrow> 'joint BulletJoint \<times> console" where
  "SetAttribute this attr index val gzerr = (this, gzerr_write Not_implement_in_Bullet gzerr)"

definition joint0 :: "unit BulletJoint" where
  "joint0 = \<lparr>Joint = (), constraint = 0, dynamicsWorld = 0\<rparr>"

section \<open>Facts about the registry\<close>

lemma contactPairs_AddLinkPair:
  "contactPairs (AddLinkPair a b e) =
     (let m1 = (if contactPairs e a = None then (contactPairs e)(a \<mapsto> b) else contactPairs e)
      in if m1 b = None then m1(b \<mapsto> a) else m1)"
  by (simp add: AddLinkPair_def map_insert_def Let_def)

lemma AddLinkPair_as_update:
  "AddLinkPair a b e = e\<lparr>contactPairs := contactPairs (AddLinkPair a b e)\<rparr>"
  by (simp add: AddLinkPair_def map_insert_def Let_def)

lemma AreTouching_iff:
  "AreTouching a b e = (contactPairs e a = Some b \<or> contactPairs e b = Some a)"
  by (auto simp: AreTouching_def split: option.splits)

lemma AddLinkPair_keeps:
  "contactPairs e k \<noteq> None \<Longrightarrow> contactPairs (AddLinkPair x y e) k = contactPairs e k"
  by (auto simp: contactPairs_AddLinkPair Let_def)

lemma AddLinkPair_new_entry:
  "contactPairs (AddLinkPair x y e) k = Some p \<Longrightarrow>
     contactPairs e k = Some p \<or> (k = x \<and> p = y) \<or> (k = y \<and> p = x)"
  by (auto simp: contactPairs_AddLinkPair Let_def split: if_splits)

lemma AddLinkPairs_entry_from_call:
  "contactPairs (AddLinkPairs cs e) k = Some p \<Longrightarrow>
     contactPairs e k = Some p \<or> (k, p) \<in> set cs \<or> (p, k) \<in> set cs"
proof (induction cs arbitrary: e)
  case Nil
  then show ?case by simp
next
  case (Cons c cs)
  obtain x y where c: "c = (x, y)" by (cases c)
  from Cons.prems c have "contactPairs (AddLinkPairs cs (AddLinkPair x y e)) k = Some p"
    by simp
  from Cons.IH [OF this]
  have "contactPairs (AddLinkPair x y e) k = Some p \<or> (k, p) \<in> set cs \<or> (p, k) \<in> set cs" .
  then show ?case
    using c by (auto dest: AddLinkPair_new_entry)
qed

section \<open>Contact registry: the claims\<close>

text \<open>
  C2. The claim: for distinct links \<open>a\<close> and \<open>b\<close>, in every reachable registry state,
  \<open>AreTouching(a, b)\<close> and \<open>AreTouching(b, a)\<close> are true right after
  \<open>AddLinkPair(a, b)\<close>. The code at the state reached from the empty registry by
  \<open>AddLinkPair(1, 3)\<close> and \<open>AddLinkPair(2, 4)\<close>: links 1 and 2 are both keys, each
  guard of \<open>AddLinkPair(1, 2)\<close> finds its key and skips its insert, the pair is
  recorded in neither direction, and both queries are false.
\<close>

theorem AddLinkPair_both_taken_not_touching:
  "(1::nat) \<noteq> 2 \<and>
   \<not> AreTouching 1 2 (AddLinkPair 1 2 (AddLinkPairs [(1, 3), (2, 4)] engine0)) \<and>
   \<not> AreTouching 2 1 (AddLinkPair 1 2 (AddLinkPairs [(1, 3), (2, 4)] engine0))"
  by (simp add: AreTouching_iff engine0_def contactPairs_AddLinkPair)

text \<open>
  C3. The claim: in every registry state reached from the empty registry by
  \<open>AddLinkPair\<close> calls, an entry \<open>a \<rightarrow> b\<close> comes with the entry \<open>b \<rightarrow> a\<close>. The code
  after \<open>AddLinkPair(1, 2)\<close> and \<open>AddLinkPair(1, 3)\<close>: the second call finds the key
  1 and skips the insert of \<open>1 \<rightarrow> 3\<close>, then inserts \<open>3 \<rightarrow> 1\<close>; the entry \<open>3 \<rightarrow> 1\<close> is
  present and link 1 still maps to 2, so only one direction of the pair is kept.
\<close>

theorem AddLinkPair_second_partner_one_direction:
  "contactPairs (AddLinkPairs [(1, 2), (1, 3)] engine0) 3 = Some 1 \<and>
   contactPairs (AddLinkPairs [(1, 2), (1, 3)] engine0) 1 \<noteq> Some 3"
  by (simp add: engine0_def contactPairs_AddLinkPair)

text \<open>
  C4. Calling \<open>AddLinkPair(a, b)\<close> a second time leaves the engine, and so the
  \<open>contactPairs\<close> map, exactly as the first call left it.
\<close>

theorem AddLinkPair_idempotent:
  "AddLinkPair a b (AddLinkPair a b e) = AddLinkPair a b e"
  by (simp add: AddLinkPair_def map_insert_def Let_def)

theorem AddLinkPair_idempotent_witness:
  "AddLinkPair 1 2 (AddLinkPair 1 2 (AddLinkPair 1 3 engine0))
     = AddLinkPair 1 2 (AddLinkPair 1 3 engine0)"
  using AddLinkPair_idempotent [of 1 2 "AddLinkPair 1 3 engine0"] by simp

text \<open>
  C5. Starting from the empty registry, if neither \<open>AddLinkPair(a, b)\<close> nor
  \<open>AddLinkPair(b, a)\<close> is among the calls made, \<open>AreTouching(a, b)\<close> is false.
\<close>

theorem never_added_not_touching:
  "contactPairs e = Map.empty \<Longrightarrow> (a, b) \<notin> set cs \<Longrightarrow> (b, a) \<notin> set cs \<Longrightarrow>
   \<not> AreTouching a b (AddLinkPairs cs e)"
  by (auto simp: AreTouching_iff dest!: AddLinkPairs_entry_from_call)

theorem never_added_not_touching_witness:
  "contactPairs engine0 = Map.empty \<and> (2, 3) \<notin> set [(1::nat, 2::nat), (1, 3)] \<and>
   (3, 2) \<notin> set [(1::nat, 2::nat), (1, 3)] \<and>
   \<not> AreTouching 2 3 (AddLinkPairs [(1, 2), (1, 3)] engine0)"
proof -
  have h1: "contactPairs engine0 = Map.empty" by (simp add: engine0_def)
  have h2: "(2, 3) \<notin> set [(1::nat, 2::nat), (1, 3)]" by simp
  have h3: "(3, 2) \<notin> set [(1::nat, 2::nat), (1, 3)]" by simp
  from never_added_not_touching [OF h1 h2 h3] h1 h2 h3 show ?thesis by simp
qed

text \<open>
  C9. \<open>AddLinkPair(a, b)\<close> and \<open>AddLinkPair(b, a)\<close> leave the same engine, and so
  the same \<open>contactPairs\<close> map.
\<close>

theorem AddLinkPair_commutes:
  "AddLinkPair a b e = AddLinkPair b a e"
proof (cases "a = b")
  case True
  then show ?thesis by simp
next
  case False
  then have twist: "(contactPairs e)(a \<mapsto> b, b \<mapsto> a) = (contactPairs e)(b \<mapsto> a, a \<mapsto> b)"
    by (rule fun_upd_twist)
  from False have "contactPairs (AddLinkPair a b e) = contactPairs (AddLinkPair b a e)"
    by (auto simp: contactPairs_AddLinkPair Let_def twist)
  then show ?thesis
    using AddLinkPair_as_update [of a b e] AddLinkPair_as_update [of b a e] by simp
qed

theorem AddLinkPair_commutes_witness:
  "AddLinkPair 1 2 (AddLinkPair 1 3 engine0) = AddLinkPair 2 1 (AddLinkPair 1 3 engine0)"
  using AddLinkPair_commutes [of 1 2 "AddLinkPair 1 3 engine0"] by simp

text \<open>
  C10. A link that is a key of \<open>contactPairs\<close> keeps its recorded partner through any
  \<open>AddLinkPair(x, y)\<close>.
\<close>

theorem AddLinkPair_never_overwrites:
  "k \<in> dom (contactPairs e) \<Longrightarrow> contactPairs (AddLinkPair x y e) k = contactPairs e k"
  by (rule AddLinkPair_keeps) auto

theorem AddLinkPair_never_overwrites_witness:
  "1 \<in> dom (contactPairs (AddLinkPair 1 3 engine0)) \<and>
   contactPairs (AddLinkPair 1 2 (AddLinkPair 1 3 engine0)) 1 = Some 3"
proof -
  have h: "1 \<in> dom (contactPairs (AddLinkPair 1 3 engine0))"
    by (simp add: engine0_def contactPairs_AddLinkPair)
  have v: "contactPairs (AddLinkPair 1 3 engine0) 1 = Some 3"
    by (simp add: engine0_def contactPairs_AddLinkPair)
  from AddLinkPair_never_overwrites [OF h, of 1 2] h v show ?thesis by simp
qed

section \<open>Engine parameters and step-loop defaults: the claims\<close>

text \<open>
  C6. Each base-class getter of the engine parameter table returns its neutral
  default, whatever the engine state: zero for the numeric parameters and \<open>false\<close>
  for the auto-disable flag.
\<close>

theorem base_getters_return_defaults:
  "GetWorldCFM e = 0 \<and> GetWorldERP e = 0 \<and> GetAutoDisableFlag e = False \<and>
   GetSORPGSIters e = 0 \<and> GetSORPGSW e = 0 \<and> GetContactMaxCorrectingVel e = 0 \<and>
   GetContactSurfaceLayer e = 0 \<and> GetMaxContacts e = 0"
  by (simp add: GetWorldCFM_def GetWorldERP_def GetAutoDisableFlag_def GetSORPGSIters_def
      GetSORPGSW_def GetContactMaxCorrectingVel_def GetContactSurfaceLayer_def
      GetMaxContacts_def)

text \<open>
  C7. Each base-class setter of the engine parameter table returns, for every
  argument, the engine it was given (it has no failing branch), and the matching
  getter reads the same value after the call as before it.
\<close>

theorem base_setters_ignore_argument:
  "SetWorldCFM cfm e = e \<and> GetWorldCFM (SetWorldCFM cfm e) = GetWorldCFM e \<and>
   SetWorldERP erp e = e \<and> GetWorldERP (SetWorldERP erp e) = GetWorldERP e \<and>
   SetAutoDisableFlag autoDisable e = e \<and>
   GetAutoDisableFlag (SetAutoDisableFlag autoDisable e) = GetAutoDisableFlag e \<and>
   SetSORPGSIters iters e = e \<and> GetSORPGSIters (SetSORPGSIters iters e) = GetSORPGSIters e \<and>
   SetSORPGSW w e = e \<and> GetSORPGSW (SetSORPGSW w e) = GetSORPGSW e \<and>
   SetContactMaxCorrectingVel vel e = e \<and>
   GetContactMaxCorrectingVel (SetContactMaxCorrectingVel vel e)
     = GetContactMaxCorrectingVel e \<and>
   SetContactSurfaceLayer layerDepth e = e \<and>
   GetContactSurfaceLayer (SetContactSurfaceLayer layerDepth e) = GetContactSurfaceLayer e \<and>
   SetMaxContacts maxContacts e = e \<and>
   GetMaxContacts (SetMaxContacts maxContacts e) = GetMaxContacts e"
  by (simp add: SetWorldCFM_def SetWorldERP_def SetAutoDisableFlag_def SetSORPGSIters_def
      SetSORPGSW_def SetContactMaxCorrectingVel_def SetContactSurfaceLayer_def
      SetMaxContacts_def)

text \<open>
  C8. The base-class \<open>Reset\<close> and \<open>UpdatePhysics\<close> return the engine they were given:
  every member, the contact registry and whatever a backend's class adds (gravity,
  step time, parameter values) included, is as it was.
\<close>

theorem Reset_UpdatePhysics_no_op:
  "Reset e = e \<and> UpdatePhysics e = e"
  by (simp add: Reset_def UpdatePhysics_def)

section \<open>The Bullet joint: the claim\<close>

text \<open>
  C1, as the code has it. Each of the six stubs writes the one message
  "Not implement in Bullet" to the error console and changes nothing else: the
  three setters leave the joint as it was, and the three getters return the
  default-constructed vector. The signal is the console message, not the value
  returned.
\<close>

theorem Bullet_stubs_log_and_keep_joint:
  "SetAnchor this i anchor gzerr = (this, gzerr @ [Not_implement_in_Bullet]) \<and>
   SetDamping this i damping gzerr = (this, gzerr @ [Not_implement_in_Bullet]) \<and>
   SetAttribute this attr i val gzerr = (this, gzerr @ [Not_implement_in_Bullet]) \<and>
   GetAnchor this i gzerr = (Vector3_default, gzerr @ [Not_implement_in_Bullet]) \<and>
   GetLinkForce this u gzerr = (Vector3_default, gzerr @ [Not_implement_in_Bullet]) \<and>
   GetLinkTorque this u gzerr = (Vector3_default, gzerr @ [Not_implement_in_Bullet])"
  by (simp add: SetAnchor_def SetDamping_def SetAttribute_def GetAnchor_def GetLinkForce_def
      GetLinkTorque_def gzerr_write_def)

text \<open>
  C1 as stated fails: what \<open>GetAnchor\<close>, \<open>GetLinkForce\<close> and \<open>GetLinkTorque\<close> return
  is the zero vector, a value a real anchor, force or torque can have.
\<close>

theorem Bullet_getters_counterexample:
  "fst (GetAnchor joint0 0 []) = Vector3 0 0 0 \<and>
   fst (GetLinkForce joint0 0 []) = Vector3 0 0 0 \<and>
   fst (GetLinkTorque joint0 0 []) = Vector3 0 0 0"
  by (simp add: GetAnchor_def GetLinkForce_def GetLinkTorque_def Vector3_default_def)

end
